theory Spec2Isabelle
  imports Complex_Main
begin

section \<open>Go values used by llm/llama.go\<close>

subsection \<open>Errors\<close>

text \<open>
  A Go error value. \<open>New s\<close> is a fresh error with message \<open>s\<close> (\<open>errors.New\<close>, and
  \<open>fmt.Errorf\<close> with the verbs \<open>%s\<close> and \<open>%v\<close>, which copy the message and keep no link
  to the cause). \<open>Wrap p e\<close> is \<open>fmt.Errorf(p + "%w", e)\<close>, which keeps the cause.
  \<open>Canceled\<close> and \<open>DeadlineExceeded\<close> are the two values \<open>ctx.Err()\<close> can return.
\<close>

datatype go_error =
    New string
  | Wrap string go_error
  | Canceled
  | DeadlineExceeded

fun err_Error :: "go_error \<Rightarrow> string" where
  "err_Error (New s) = s"
| "err_Error (Wrap p e) = p @ err_Error e"
| "err_Error Canceled = ''context canceled''"
| "err_Error DeadlineExceeded = ''context deadline exceeded''"

text \<open>\<open>fmt.Errorf(p + "%v", e)\<close>: the message of \<open>e\<close> is copied into a new error.\<close>

definition Errorf_v :: "string \<Rightarrow> go_error \<Rightarrow> go_error" where
  "Errorf_v p e = New (p @ err_Error e)"

subsection \<open>Decimal formatting\<close>

text \<open>\<open>fmt.Sprintf("%d", n)\<close> and \<open>strconv.Itoa(n)\<close>.\<close>

definition digit_char :: "nat \<Rightarrow> char" where
  "digit_char d = ''0123456789'' ! d"

fun nat_digits :: "nat \<Rightarrow> string" where
  "nat_digits n =
     (if n < 10 then [digit_char n]
      else nat_digits (n div 10) @ [digit_char (n mod 10)])"

declare nat_digits.simps [simp del]

definition Sprintf_d :: "int \<Rightarrow> string" where
  "Sprintf_d i = (if i < 0 then CHR ''-'' # nat_digits (nat (- i)) else nat_digits (nat i))"

subsection \<open>Strings\<close>

definition strings_HasPrefix :: "string \<Rightarrow> string \<Rightarrow> bool" where
  "strings_HasPrefix s prefix = (length prefix \<le> length s \<and> take (length prefix) s = prefix)"

definition strings_CutPrefix :: "string \<Rightarrow> string \<Rightarrow> string \<times> bool" where
  "strings_CutPrefix s prefix =
     (if strings_HasPrefix s prefix then (drop (length prefix) s, True) else (s, False))"

subsection \<open>The caller's context\<close>

text \<open>
  A \<open>context.Context\<close> as \<open>Predict\<close> observes it. Cancellation is permanent: once
  \<open>ctx.Done()\<close> is closed it stays closed. \<open>cancel_step = Some k\<close> says that the context
  is done from step \<open>k\<close> of the scanning loop on (step \<open>i\<close> is the point where the loop
  has consumed \<open>i\<close> lines; step \<open>0\<close> is before the first line), \<open>None\<close> that it is never
  done during the call. \<open>deadline\<close> tells which of the two errors \<open>ctx.Err()\<close> reports.
\<close>

record "context" =
  cancel_step :: "nat option"
  deadline :: bool

definition ctx_Done :: "context \<Rightarrow> nat \<Rightarrow> bool" where
  "ctx_Done ctx i = (case cancel_step ctx of None \<Rightarrow> False | Some k \<Rightarrow> k \<le> i)"

definition ctx_Err :: "context \<Rightarrow> nat \<Rightarrow> go_error option" where
  "ctx_Err ctx i =
     (if ctx_Done ctx i then Some (if deadline ctx then DeadlineExceeded else Canceled)
      else None)"

section \<open>Data of llm/llama.go\<close>

text \<open>
  \<open>api.Options\<close>, with the fields this file reads. Floating-point fields are carried
  as they are; the code does no arithmetic on them.
\<close>

record options =
  o_NumCtx :: int
  o_RopeFrequencyBase :: real
  o_RopeFrequencyScale :: real
  o_NumBatch :: int
  o_NumGQA :: int
  o_NumGPU :: int
  o_NumThread :: int
  o_F16KV :: bool
  o_UseMLock :: bool
  o_UseMMap :: bool
  o_UseNUMA :: bool
  o_NumPredict :: int
  o_NumKeep :: int
  o_Temperature :: real
  o_TopK :: int
  o_TopP :: real
  o_TFSZ :: real
  o_TypicalP :: real
  o_RepeatLastN :: int
  o_RepeatPenalty :: real
  o_PresencePenalty :: real
  o_FrequencyPenalty :: real
  o_Mirostat :: int
  o_MirostatTau :: real
  o_MirostatEta :: real
  o_PenalizeNewline :: bool
  o_Stop :: "string list"

text \<open>\<open>type llama struct { api.Options; Running }\<close>; of \<open>Running\<close> only the port is data.\<close>

record llama =
  Options :: options
  Port :: int

text \<open>\<open>Prediction\<close> with its embedded \<open>Timings\<close> (the fields \<open>Predict\<close> reads).\<close>

record Prediction =
  Content :: string
  Stop :: bool
  PredictedN :: int
  PredictedMS :: real
  PromptN :: int
  PromptMS :: real

text \<open>\<open>PredictRequest\<close>, the fields \<open>Predict\<close> sets, under their JSON names.\<close>

record PredictRequest =
  stream :: bool
  n_predict :: int
  top_k :: int
  top_p :: real
  tfs_z :: real
  typical_p :: real
  repeat_last_n :: int
  temperature :: real
  repeat_penalty :: real
  presence_penalty :: real
  frequency_penalty :: real
  mirostat :: int
  mirostat_tau :: real
  mirostat_eta :: real
  penalize_nl :: bool
  n_keep :: int
  prompt :: string
  stop :: "string list"

text \<open>\<open>api.GenerateResponse\<close>, the fields \<open>Predict\<close> sets; durations in nanoseconds.\<close>

record GenerateResponse =
  Response :: string
  Done :: bool
  Context :: "int list"
  PromptEvalCount :: int
  PromptEvalDuration :: int
  EvalCount :: int
  EvalDuration :: int

section \<open>The world outside the process\<close>

text \<open>
  An HTTP response as the two readers of the source see its body: \<open>io.ReadAll\<close> gives
  all bytes or an error; a \<open>bufio.Scanner\<close> gives the lines \<open>scanner.Text()\<close> returns
  one after the other, and then \<open>scanner.Err()\<close> (\<open>None\<close> at a clean end of file).
\<close>

record response =
  StatusCode :: int
  ReadAll :: "go_error + string"
  ScanText :: "string list"
  ScanErr :: "go_error option"

text \<open>
  The library calls whose results the code depends on, as functions of their
  arguments: JSON encoding and decoding, building and sending a request, and the
  helper \<open>parseDurationMs\<close> (defined elsewhere in the package) as a parameter.
\<close>

record world =
  json_Marshal_PredictRequest :: "PredictRequest \<Rightarrow> go_error + string"
  json_Marshal_TokenizeRequest :: "string \<Rightarrow> go_error + string"
  json_Marshal_DetokenizeRequest :: "int list \<Rightarrow> go_error + string"
  json_Unmarshal_Prediction :: "string \<Rightarrow> go_error + Prediction"
  json_Unmarshal_TokenizeResponse :: "string \<Rightarrow> go_error + int list"
  json_Unmarshal_DetokenizeResponse :: "string \<Rightarrow> go_error + string"
  json_Unmarshal_EmbeddingResponse :: "string \<Rightarrow> go_error + real list"
  http_NewRequestWithContext :: "context \<Rightarrow> string \<Rightarrow> string \<Rightarrow> go_error option"
  http_Do :: "context \<Rightarrow> string \<Rightarrow> string \<Rightarrow> go_error + response"
  parseDurationMs :: "real \<Rightarrow> int"

text \<open>
  What a call does besides returning: the POST requests handed to
  \<open>http.DefaultClient.Do\<close> (URL and body) and the invocations of the callback \<open>fn\<close>.
\<close>

datatype event =
    HttpPost string string
  | Emit GenerateResponse

definition callbacks :: "event list \<Rightarrow> GenerateResponse list" where
  "callbacks tr = concat (map (\<lambda>ev. case ev of Emit r \<Rightarrow> [r] | HttpPost u b \<Rightarrow> []) tr)"

definition requests :: "event list \<Rightarrow> (string \<times> string) list" where
  "requests tr = concat (map (\<lambda>ev. case ev of Emit r \<Rightarrow> [] | HttpPost u b \<Rightarrow> [(u, b)]) tr)"

definition endpoint_of :: "llama \<Rightarrow> string \<Rightarrow> string" where
  "endpoint_of llm path = ''http://127.0.0.1:'' @ Sprintf_d (Port llm) @ path"

section \<open>Encode, Decode, Embedding\<close>

definition Encode :: "world \<Rightarrow> llama \<Rightarrow> context \<Rightarrow> string \<Rightarrow> (go_error + int list) \<times> event list" where
  "Encode w llm ctx prompt_text =
     (let endpoint = endpoint_of llm ''/tokenize'' in
      case json_Marshal_TokenizeRequest w prompt_text of
        Inl err \<Rightarrow> (Inl (Wrap ''marshaling encode data: '' err), [])
      | Inr data \<Rightarrow>
     (case http_NewRequestWithContext w ctx endpoint data of
        Some err \<Rightarrow> (Inl (Wrap ''encode request: '' err), [])
      | None \<Rightarrow>
     (case http_Do w ctx endpoint data of
        Inl err \<Rightarrow> (Inl (Wrap ''do encode request: '' err), [HttpPost endpoint data])
      | Inr resp \<Rightarrow>
     (case ReadAll resp of
        Inl err \<Rightarrow> (Inl (Wrap ''read encode request: '' err), [HttpPost endpoint data])
      | Inr body \<Rightarrow>
        if StatusCode resp \<ge> 400 then (Inl (New body), [HttpPost endpoint data])
        else
     (case json_Unmarshal_TokenizeResponse w body of
        Inl err \<Rightarrow> (Inl (Wrap ''unmarshal encode response: '' err), [HttpPost endpoint data])
      | Inr tokens \<Rightarrow> (Inr tokens, [HttpPost endpoint data]))))))"

definition Decode :: "world \<Rightarrow> llama \<Rightarrow> context \<Rightarrow> int list \<Rightarrow> (go_error + string) \<times> event list" where
  "Decode w llm ctx tokens =
     (if length tokens = 0 then (Inr '''', [])
      else
      let endpoint = endpoint_of llm ''/detokenize'' in
      case json_Marshal_DetokenizeRequest w tokens of
        Inl err \<Rightarrow> (Inl (Wrap ''marshaling decode data: '' err), [])
      | Inr data \<Rightarrow>
     (case http_NewRequestWithContext w ctx endpoint data of
        Some err \<Rightarrow> (Inl (Wrap ''decode request: '' err), [])
      | None \<Rightarrow>
     (case http_Do w ctx endpoint data of
        Inl err \<Rightarrow> (Inl (Wrap ''do decode request: '' err), [HttpPost endpoint data])
      | Inr resp \<Rightarrow>
     (case ReadAll resp of
        Inl err \<Rightarrow> (Inl (Wrap ''read decode request: '' err), [HttpPost endpoint data])
      | Inr body \<Rightarrow>
        if StatusCode resp \<ge> 400 then (Inl (New body), [HttpPost endpoint data])
        else
     (case json_Unmarshal_DetokenizeResponse w body of
        Inl err \<Rightarrow> (Inl (Wrap ''unmarshal encode response: '' err), [HttpPost endpoint data])
      | Inr content \<Rightarrow>
          (Inr (fst (strings_CutPrefix content '''')), [HttpPost endpoint data]))))))"

definition Embedding :: "world \<Rightarrow> llama \<Rightarrow> context \<Rightarrow> string \<Rightarrow> (go_error + real list) \<times> event list" where
  "Embedding w llm ctx input =
     (let endpoint = endpoint_of llm ''/embedding'' in
      case json_Marshal_TokenizeRequest w input of
        Inl err \<Rightarrow> (Inl (Wrap ''error marshaling embed data: '' err), [])
      | Inr data \<Rightarrow>
     (case http_NewRequestWithContext w ctx endpoint data of
        Some err \<Rightarrow> (Inl (Wrap ''error creating embed request: '' err), [])
      | None \<Rightarrow>
     (case http_Do w ctx endpoint data of
        Inl err \<Rightarrow> (Inl (Wrap ''POST embedding: '' err), [HttpPost endpoint data])
      | Inr resp \<Rightarrow>
     (case ReadAll resp of
        Inl err \<Rightarrow> (Inl (Wrap ''error reading embed response: '' err), [HttpPost endpoint data])
      | Inr body \<Rightarrow>
        if StatusCode resp \<ge> 400 then (Inl (New body), [HttpPost endpoint data])
        else
     (case json_Unmarshal_EmbeddingResponse w body of
        Inl err \<Rightarrow> (Inl (Wrap ''unmarshal tokenize response: '' err), [HttpPost endpoint data])
      | Inr embedding \<Rightarrow> (Inr embedding, [HttpPost endpoint data]))))))"

section \<open>Predict\<close>

definition partial_response :: "string \<Rightarrow> GenerateResponse" where
  "partial_response content =
     \<lparr>Response = content, Done = False, Context = [], PromptEvalCount = 0,
      PromptEvalDuration = 0, EvalCount = 0, EvalDuration = 0\<rparr>"

definition final_response :: "world \<Rightarrow> int list \<Rightarrow> Prediction \<Rightarrow> GenerateResponse" where
  "final_response w embd p =
     \<lparr>Response = '''', Done = True, Context = embd, PromptEvalCount = PromptN p,
      PromptEvalDuration = parseDurationMs w (PromptMS p), EvalCount = PredictedN p,
      EvalDuration = parseDurationMs w (PredictedMS p)\<rparr>"

text \<open>
  The loop \<open>for scanner.Scan() { ... }\<close> of \<open>Predict\<close> together with the check of
  \<open>scanner.Err()\<close> that follows it. \<open>serr\<close> is what \<open>scanner.Err()\<close> returns once the
  lines are used up, \<open>i\<close> counts the iterations, \<open>nextContext\<close> is the contents of
  the string builder. The result is the error returned (\<open>None\<close> is \<open>nil\<close>) and the
  events of the loop in order.
\<close>

fun scan_loop ::
  "world \<Rightarrow> llama \<Rightarrow> context \<Rightarrow> go_error option \<Rightarrow> nat \<Rightarrow> string list \<Rightarrow> string
     \<Rightarrow> go_error option \<times> event list" where
  "scan_loop w llm ctx serr i [] nextContext =
     (case serr of
        Some err \<Rightarrow> (Some (Errorf_v ''error reading llm response: '' err), [])
      | None \<Rightarrow> (None, []))"
| "scan_loop w llm ctx serr i (line # rest) nextContext =
     (if ctx_Done ctx i then (ctx_Err ctx i, [])
      else if line = '''' then scan_loop w llm ctx serr (Suc i) rest nextContext
      else if strings_HasPrefix line ''data: '' then
        (case json_Unmarshal_Prediction w (drop 6 line) of
           Inl err \<Rightarrow>
             (Some (Errorf_v ''error unmarshaling llm prediction response: '' err), [])
         | Inr p \<Rightarrow>
             if Stop p then
               (case Encode w llm ctx (nextContext @ Content p) of
                  (Inl err, tr) \<Rightarrow>
                    (Some (Errorf_v ''encoding context: '' err),
                     Emit (partial_response (Content p)) # tr)
                | (Inr embd, tr) \<Rightarrow>
                    (None,
                     Emit (partial_response (Content p)) # tr @ [Emit (final_response w embd p)]))
             else
               apsnd ((#) (Emit (partial_response (Content p))))
                 (scan_loop w llm ctx serr (Suc i) rest (nextContext @ Content p)))
      else scan_loop w llm ctx serr (Suc i) rest nextContext)"

definition predReq_of :: "llama \<Rightarrow> string \<Rightarrow> PredictRequest" where
  "predReq_of llm nextContext =
     \<lparr>stream = True,
      n_predict = o_NumPredict (Options llm),
      top_k = o_TopK (Options llm),
      top_p = o_TopP (Options llm),
      tfs_z = o_TFSZ (Options llm),
      typical_p = o_TypicalP (Options llm),
      repeat_last_n = o_RepeatLastN (Options llm),
      temperature = o_Temperature (Options llm),
      repeat_penalty = o_RepeatPenalty (Options llm),
      presence_penalty = o_PresencePenalty (Options llm),
      frequency_penalty = o_FrequencyPenalty (Options llm),
      mirostat = o_Mirostat (Options llm),
      mirostat_tau = o_MirostatTau (Options llm),
      mirostat_eta = o_MirostatEta (Options llm),
      penalize_nl = o_PenalizeNewline (Options llm),
      n_keep = o_NumKeep (Options llm),
      prompt = nextContext,
      stop = o_Stop (Options llm)\<rparr>"

definition Predict ::
  "world \<Rightarrow> llama \<Rightarrow> context \<Rightarrow> int list \<Rightarrow> string \<Rightarrow> go_error option \<times> event list" where
  "Predict w llm ctx prevContext prompt_text =
     (case Decode w llm ctx prevContext of
        (Inl err, tr0) \<Rightarrow> (Some err, tr0)
      | (Inr prevConvo, tr0) \<Rightarrow>
     (let nextContext = prevConvo @ prompt_text;
          endpoint = endpoint_of llm ''/completion''
      in
      case json_Marshal_PredictRequest w (predReq_of llm nextContext) of
        Inl err \<Rightarrow> (Some (Errorf_v ''error marshaling data: '' err), tr0)
      | Inr data \<Rightarrow>
     (case http_NewRequestWithContext w ctx endpoint data of
        Some err \<Rightarrow> (Some (Errorf_v ''error creating POST request: '' err), tr0)
      | None \<Rightarrow>
     (case http_Do w ctx endpoint data of
        Inl err \<Rightarrow> (Some (Errorf_v ''POST predict: '' err), tr0 @ [HttpPost endpoint data])
      | Inr resp \<Rightarrow>
        if StatusCode resp \<ge> 400 then
          (case ReadAll resp of
             Inl err \<Rightarrow>
               (Some (Wrap ''failed reading llm error response: '' err),
                tr0 @ [HttpPost endpoint data])
           | Inr bodyBytes \<Rightarrow> (Some (New bodyBytes), tr0 @ [HttpPost endpoint data]))
        else
          apsnd (\<lambda>tr. tr0 @ HttpPost endpoint data # tr)
            (scan_loop w llm ctx (ScanErr resp) 0 (ScanText resp) nextContext)))))"

section \<open>Properties of Decode\<close>

text \<open>
  C8. \<open>Decode\<close> applied to the empty token sequence returns the empty string and no
  error, and hands no request to the HTTP client, whatever the context (and whatever
  the world and the runner).
\<close>

theorem Decode_empty_no_request:
  "Decode w llm ctx [] = (Inr '''', [])"
  by (simp add: Decode_def)

end
